theory Spec2Isabelle
  imports Complex_Main
begin

section \<open>Cell values and their text forms\<close>

text \<open>
  The development embeds \<^verbatim>\<open>examine_excel_file\<close> of
  \<^verbatim>\<open>excel_files/examine_excel_direct.py\<close>. The function reads a workbook through
  openpyxl and computes, per worksheet, a used range and the displayed rows, then the
  workbook-wide cell counts and density, then the two dictionaries that the metadata query
  and the range-read query would return. Console printing is not modelled; the values
  that are printed are.
\<close>

record datetime =
  year :: nat
  month :: nat
  day :: nat
  hour :: nat
  minute :: nat
  second :: nat
  microsecond :: nat

text \<open>
  The value of a cell as openpyxl hands it over (\<^verbatim>\<open>values_only=True\<close>, or
  \<^verbatim>\<open>.value\<close>): \<^verbatim>\<open>None\<close>, a \<^verbatim>\<open>str\<close>, an \<^verbatim>\<open>int\<close>, a \<^verbatim>\<open>float\<close>, a \<^verbatim>\<open>bool\<close>, a
  \<^verbatim>\<open>datetime\<close>, or, for a cell that holds only a date, only a time of day or a
  duration, a \<^verbatim>\<open>date\<close> (year, month, day), a \<^verbatim>\<open>time\<close> (hour, minute, second,
  microsecond) or a \<^verbatim>\<open>timedelta\<close> (days, seconds, microseconds). Of these only a
  \<^verbatim>\<open>datetime\<close> passes \<^verbatim>\<open>isinstance(cell, datetime)\<close>. A float is carried by its
  \<^verbatim>\<open>repr\<close>, which identifies it (Python's \<^verbatim>\<open>repr\<close> of a float round-trips); no
  floating-point arithmetic is done on cells. Characters are the code points below 256.
\<close>

datatype cell_value =
    CNone
  | CStr string
  | CInt int
  | CFloat string
  | CBool bool
  | CDateTime datetime
  | CDate nat nat nat
  | CTime nat nat nat nat
  | CTimeDelta int nat nat

definition digit_char :: "nat \<Rightarrow> char" where
  "digit_char n = char_of (48 + n)"

function str_nat :: "nat \<Rightarrow> string" where
  "str_nat n = (if n < 10 then [digit_char n] else str_nat (n div 10) @ [digit_char (n mod 10)])"
  by pat_completeness auto
termination
  by (relation "measure id") auto

declare str_nat.simps [simp del]

definition str_int :: "int \<Rightarrow> string" where
  "str_int i = (if i < 0 then CHR ''-'' # str_nat (nat (- i)) else str_nat (nat i))"

definition zfill :: "nat \<Rightarrow> string \<Rightarrow> string" where
  "zfill w s = replicate (w - length s) CHR ''0'' @ s"

text \<open>
  \<^verbatim>\<open>datetime.strftime\<close> for the directives the source uses. Python hands the format
  to the C library: glibc prints \<^verbatim>\<open>%Y\<close> as the year without padding (\<^verbatim>\<open>996\<close> for the
  year 996), the other fields padded to two digits. From the year 1000 on the year has
  its four digits with or without padding.
\<close>

definition directive :: "char \<Rightarrow> datetime \<Rightarrow> string" where
  "directive x d =
     (if x = CHR ''Y'' then str_nat (year d)
      else if x = CHR ''m'' then zfill 2 (str_nat (month d))
      else if x = CHR ''d'' then zfill 2 (str_nat (day d))
      else if x = CHR ''H'' then zfill 2 (str_nat (hour d))
      else if x = CHR ''M'' then zfill 2 (str_nat (minute d))
      else if x = CHR ''S'' then zfill 2 (str_nat (second d))
      else [CHR ''%'', x])"

fun strftime :: "string \<Rightarrow> datetime \<Rightarrow> string" where
  "strftime [] d = []"
| "strftime [c] d = [c]"
| "strftime (c # x # fmt) d =
     (if c = CHR ''%'' then directive x d @ strftime fmt d
      else c # strftime (x # fmt) d)"

text \<open>
  \<^verbatim>\<open>str(cell)\<close>. The ISO forms of \<^verbatim>\<open>date\<close>, \<^verbatim>\<open>time\<close> and \<^verbatim>\<open>datetime\<close> are Python's
  own: the year always has four digits, the microseconds are shown when they are not
  zero, and a \<^verbatim>\<open>datetime\<close> has a space between date and time. A \<^verbatim>\<open>timedelta\<close> is
  \<^verbatim>\<open>[D day[s], ]H:MM:SS[.ffffff]\<close>.
\<close>

definition iso_date :: "nat \<Rightarrow> nat \<Rightarrow> nat \<Rightarrow> string" where
  "iso_date y m d = zfill 4 (str_nat y) @ ''-'' @ zfill 2 (str_nat m) @ ''-'' @ zfill 2 (str_nat d)"

definition fraction :: "nat \<Rightarrow> string" where
  "fraction us = (if us = 0 then [] else CHR ''.'' # zfill 6 (str_nat us))"

definition iso_time :: "nat \<Rightarrow> nat \<Rightarrow> nat \<Rightarrow> nat \<Rightarrow> string" where
  "iso_time h m s us =
     zfill 2 (str_nat h) @ '':'' @ zfill 2 (str_nat m) @ '':'' @ zfill 2 (str_nat s)
     @ fraction us"

definition str_datetime :: "datetime \<Rightarrow> string" where
  "str_datetime d =
     iso_date (year d) (month d) (day d) @ '' ''
     @ iso_time (hour d) (minute d) (second d) (microsecond d)"

definition str_timedelta :: "int \<Rightarrow> nat \<Rightarrow> nat \<Rightarrow> string" where
  "str_timedelta days secs us =
     (if days = 0 then []
      else str_int days @ '' day'' @ (if \<bar>days\<bar> \<noteq> 1 then ''s'' else []) @ '', '')
     @ str_nat (secs div 3600) @ '':'' @ zfill 2 (str_nat (secs div 60 mod 60)) @ '':''
     @ zfill 2 (str_nat (secs mod 60)) @ fraction us"

fun str :: "cell_value \<Rightarrow> string" where
  "str CNone = ''None''"
| "str (CStr s) = s"
| "str (CInt i) = str_int i"
| "str (CFloat r) = r"
| "str (CBool b) = (if b then ''True'' else ''False'')"
| "str (CDateTime d) = str_datetime d"
| "str (CDate y m d) = iso_date y m d"
| "str (CTime h m s us) = iso_time h m s us"
| "str (CTimeDelta days secs us) = str_timedelta days secs us"

text \<open>\<^verbatim>\<open>str.isspace\<close> on one character and \<^verbatim>\<open>str.strip()\<close>.\<close>

definition isspace :: "char \<Rightarrow> bool" where
  "isspace c =
     (let n = (of_char c :: nat)
      in (9 \<le> n \<and> n \<le> 13) \<or> (28 \<le> n \<and> n \<le> 32) \<or> n = 133 \<or> n = 160)"

definition strip :: "string \<Rightarrow> string" where
  "strip s = rev (dropWhile isspace (rev (dropWhile isspace s)))"

section \<open>Column letters\<close>

text \<open>
  Modelled from the spec: \<^verbatim>\<open>openpyxl.utils.get_column_letter\<close> (the spec's
  \<^verbatim>\<open>formatColumn\<close>) is called by the source and defined outside it. Section 4.1:
  column letters use a bijective base-26 encoding, \<^verbatim>\<open>A\<close>=1 ... \<^verbatim>\<open>Z\<close>=26,
  \<^verbatim>\<open>AA\<close>=27, and so on.
\<close>

function get_column_letter :: "nat \<Rightarrow> string" where
  "get_column_letter n =
     (if n = 0 then []
      else get_column_letter ((n - 1) div 26) @ [char_of (65 + (n - 1) mod 26)])"
  by pat_completeness auto
termination
  by (relation "measure id") auto

declare get_column_letter.simps [simp del]

datatype address_error = InvalidAddress

definition is_column_letter :: "char \<Rightarrow> bool" where
  "is_column_letter c = (65 \<le> (of_char c :: nat) \<and> (of_char c :: nat) \<le> 90)"

definition isalpha :: "char \<Rightarrow> bool" where
  "isalpha c =
     (let n = (of_char c :: nat) in (65 \<le> n \<and> n \<le> 90) \<or> (97 \<le> n \<and> n \<le> 122))"

text \<open>
  Modelled from the spec: \<^verbatim>\<open>parseColumn\<close> has no counterpart in the source. Section
  4.1: it inverts \<^verbatim>\<open>formatColumn\<close> and fails with \<^verbatim>\<open>InvalidAddress\<close> on the empty
  string and on non-alphabetic input. The letters of the encoding are \<^verbatim>\<open>A\<close> to
  \<^verbatim>\<open>Z\<close>; the digits are read most significant first.
\<close>

fun parse_letters :: "nat \<Rightarrow> string \<Rightarrow> address_error + nat" where
  "parse_letters acc [] = Inr acc"
| "parse_letters acc (c # cs) =
     (if is_column_letter c then parse_letters (acc * 26 + (of_char c - 64)) cs
      else Inl InvalidAddress)"

definition parseColumn :: "string \<Rightarrow> address_error + nat" where
  "parseColumn s = (if s = [] then Inl InvalidAddress else parse_letters 0 s)"

section \<open>Worksheets and workbooks\<close>

text \<open>
  A worksheet as the source reads it: \<^verbatim>\<open>ws.title\<close>, the nominal bounds
  \<^verbatim>\<open>ws.max_row\<close> and \<^verbatim>\<open>ws.max_column\<close>, and \<^verbatim>\<open>ws.cell(r, c).value\<close>. The bounds
  are fields of their own: they may overstate the populated extent.
\<close>

record worksheet =
  title :: string
  max_row :: nat
  max_column :: nat
  cell :: "nat \<Rightarrow> nat \<Rightarrow> cell_value"

text \<open>
  \<^verbatim>\<open>workbook.worksheets\<close> in workbook order, and the title of \<^verbatim>\<open>workbook.active\<close>
  (\<open>None\<close> when the workbook has no active sheet). A chartsheet can be the active sheet
  and is not among the worksheets.
\<close>

record workbook =
  worksheets :: "worksheet list"
  active :: "string option"

text \<open>
  \<^verbatim>\<open>ws.iter_rows(min_row, max_row, min_col, max_col, values_only=True)\<close>: the rows
  from \<open>min_row\<close> to \<open>last_row\<close>, each with the values of the columns from \<open>min_col\<close> to
  \<open>last_col\<close>; a cell that the sheet does not hold has the value \<^verbatim>\<open>None\<close>.
\<close>

definition iter_rows :: "worksheet \<Rightarrow> nat \<Rightarrow> nat \<Rightarrow> nat \<Rightarrow> nat \<Rightarrow> cell_value list list" where
  "iter_rows ws min_row last_row min_col last_col =
     map (\<lambda>r. map (\<lambda>c. cell ws r c) [min_col ..< Suc last_col]) [min_row ..< Suc last_row]"

text \<open>
  \<^verbatim>\<open>ws.iter_rows(values_only=True)\<close> with no bounds walks the nominal grid, rows 1 to
  \<^verbatim>\<open>max_row\<close> and columns 1 to \<^verbatim>\<open>max_column\<close>. (On a sheet that stores no cell at
  all the bounds are 1 by 1 and every value is \<^verbatim>\<open>None\<close>; whether the library yields
  that one row or none, no cell of it is counted.)
\<close>

definition iter_rows_all :: "worksheet \<Rightarrow> cell_value list list" where
  "iter_rows_all ws = iter_rows ws 1 (max_row ws) 1 (max_column ws)"

section \<open>The examination of one worksheet (lines 32 to 86)\<close>

datatype sheet_signal = EmptyWorksheet

text \<open>The f-string of lines 42 and 117.\<close>

definition used_range :: "worksheet \<Rightarrow> string" where
  "used_range ws = ''A1:'' @ get_column_letter (max_column ws) @ str_nat (max_row ws)"

text \<open>Lines 52 to 59: one cell of a displayed row.\<close>

definition format_display_cell :: "cell_value \<Rightarrow> string" where
  "format_display_cell c =
     (case c of
        CDateTime d \<Rightarrow> strftime ''%Y-%m-%d %H:%M:%S'' d
      | CNone \<Rightarrow> []
      | _ \<Rightarrow> str c)"

record sheet_report =
  rep_used_range :: string
  rep_rows :: nat
  rep_columns :: nat
  rep_data :: "string list list"

text \<open>
  One turn of the loop of line 32. \<open>Inl EmptyWorksheet\<close> is the \<^verbatim>\<open>continue\<close> of line 40.
\<close>

definition examine_worksheet :: "worksheet \<Rightarrow> sheet_signal + sheet_report" where
  "examine_worksheet ws =
     (if max_row ws = 1 \<and> max_column ws = 1 \<and> cell ws 1 1 = CNone
      then Inl EmptyWorksheet
      else Inr \<lparr> rep_used_range = used_range ws,
                 rep_rows = max_row ws,
                 rep_columns = max_column ws,
                 rep_data = map (map format_display_cell)
                              (iter_rows ws 1 (max_row ws) 1 (max_column ws)) \<rparr>)"

section \<open>The summary (lines 88 to 102)\<close>

datatype py_exception =
    FileNotFoundError
  | AttributeError
  | ZeroDivisionError
  | TypeError
  | OtherException

text \<open>Line 91: the sum of \<^verbatim>\<open>max_row * max_column\<close> over the worksheets.\<close>

definition total_cells :: "workbook \<Rightarrow> nat" where
  "total_cells wb = sum_list (map (\<lambda>ws. max_row ws * max_column ws) (worksheets wb))"

text \<open>
  Lines 92 to 98: the counter \<^verbatim>\<open>non_empty_cells\<close> through the three nested loops. A
  string is true in a condition when it is not empty.
\<close>

definition non_empty_cells :: "workbook \<Rightarrow> nat" where
  "non_empty_cells wb =
     foldl (\<lambda>n ws.
       foldl (\<lambda>n row.
         foldl (\<lambda>n c. if c \<noteq> CNone \<and> strip (str c) \<noteq> [] then n + 1 else n) n row)
         n (iter_rows_all ws))
       0 (worksheets wb)"

text \<open>
  Python's \<^verbatim>\<open>/\<close> on two integers raises \<^verbatim>\<open>ZeroDivisionError\<close> when the divisor is
  zero. The quotient is kept exact; the rounding to a double is not modelled.
\<close>

definition true_div :: "nat \<Rightarrow> nat \<Rightarrow> py_exception + rat" where
  "true_div a b = (if b = 0 then Inl ZeroDivisionError else Inr (of_nat a / of_nat b))"

text \<open>Line 102: \<^verbatim>\<open>non_empty_cells/total_cells\<close>, and the percentage printed from it.\<close>

definition density :: "workbook \<Rightarrow> py_exception + rat" where
  "density wb = true_div (non_empty_cells wb) (total_cells wb)"

definition density_percent :: "workbook \<Rightarrow> py_exception + rat" where
  "density_percent wb = (case density wb of Inl e \<Rightarrow> Inl e | Inr q \<Rightarrow> Inr (q * 100))"

section \<open>The two query results (lines 104 to 156)\<close>

text \<open>
  The dictionaries handed to \<^verbatim>\<open>json.dumps\<close>, as the JSON values they stand for:
  \<^verbatim>\<open>None\<close> is \<open>null\<close>, a dictionary is an object with its keys in insertion order.
\<close>

datatype json =
    JNull
  | JString string
  | JInt int
  | JFloat string
  | JBool bool
  | JArray "json list"
  | JObject "(string \<times> json) list"

text \<open>\<^verbatim>\<open>d[k]\<close> on such a dictionary.\<close>

definition field :: "string \<Rightarrow> json \<Rightarrow> json option" where
  "field k j = (case j of JObject kvs \<Rightarrow> map_of kvs k | _ \<Rightarrow> None)"

text \<open>Lines 115 to 120.\<close>

definition ws_info :: "worksheet \<Rightarrow> json" where
  "ws_info ws =
     JObject [(''name'', JString (title ws)),
              (''used_range'', JString (used_range ws)),
              (''max_row'', JInt (int (max_row ws))),
              (''max_column'', JInt (int (max_column ws)))]"

text \<open>Lines 109 to 121: the loop appends one \<^verbatim>\<open>ws_info\<close> per worksheet.\<close>

definition metadata :: "string \<Rightarrow> workbook \<Rightarrow> json" where
  "metadata file_path wb =
     JObject [(''file_path'', JString file_path),
              (''worksheets'', JArray (map ws_info (worksheets wb)))]"

text \<open>
  \<^verbatim>\<open>json.dumps\<close> on one value of the data: \<^verbatim>\<open>None\<close>, strings, numbers and booleans
  have a JSON form; a \<^verbatim>\<open>datetime\<close>, \<^verbatim>\<open>date\<close>, \<^verbatim>\<open>time\<close> or \<^verbatim>\<open>timedelta\<close> object raises
  \<^verbatim>\<open>TypeError\<close>.
\<close>

definition json_value :: "cell_value \<Rightarrow> py_exception + json" where
  "json_value c =
     (case c of
        CNone \<Rightarrow> Inr JNull
      | CStr s \<Rightarrow> Inr (JString s)
      | CInt i \<Rightarrow> Inr (JInt i)
      | CFloat r \<Rightarrow> Inr (JFloat r)
      | CBool b \<Rightarrow> Inr (JBool b)
      | _ \<Rightarrow> Inl TypeError)"

text \<open>The elements of a list in order; the first one that raises ends the run.\<close>

fun dumps_all :: "(py_exception + json) list \<Rightarrow> py_exception + json list" where
  "dumps_all [] = Inr []"
| "dumps_all (x # xs) =
     (case x of
        Inl e \<Rightarrow> Inl e
      | Inr v \<Rightarrow> (case dumps_all xs of Inl e \<Rightarrow> Inl e | Inr vs \<Rightarrow> Inr (v # vs)))"

definition json_row :: "cell_value list \<Rightarrow> py_exception + json" where
  "json_row row =
     (case dumps_all (map json_value row) of Inl e \<Rightarrow> Inl e | Inr vs \<Rightarrow> Inr (JArray vs))"

definition json_rows :: "cell_value list list \<Rightarrow> py_exception + json" where
  "json_rows rows =
     (case dumps_all (map json_row rows) of Inl e \<Rightarrow> Inl e | Inr rs \<Rightarrow> Inr (JArray rs))"

text \<open>\<^verbatim>\<open>res["data"][i][j]\<close>; \<open>None\<close> where Python raises.\<close>

definition data_at :: "json \<Rightarrow> nat \<Rightarrow> nat \<Rightarrow> json option" where
  "data_at res i j =
     (case field ''data'' res of
        Some (JArray rows) \<Rightarrow>
          (if i < length rows
           then (case rows ! i of
                   JArray row \<Rightarrow> (if j < length row then Some (row ! j) else None)
                 | _ \<Rightarrow> None)
           else None)
      | _ \<Rightarrow> None)"

text \<open>Lines 139 to 145: one cell of the range-read data.\<close>

definition format_sample_cell :: "cell_value \<Rightarrow> cell_value" where
  "format_sample_cell c =
     (case c of
        CDateTime d \<Rightarrow> CStr (strftime ''%Y-%m-%d'' d)
      | CNone \<Rightarrow> CNone
      | _ \<Rightarrow> c)"

text \<open>
  Lines 135 to 146: the loop over \<^verbatim>\<open>iter_rows\<close> that fills the data, for the bounds it is
  given.
\<close>

definition read_rows :: "worksheet \<Rightarrow> nat \<Rightarrow> nat \<Rightarrow> nat \<Rightarrow> nat \<Rightarrow> cell_value list list" where
  "read_rows ws min_row last_row min_col last_col =
     map (map format_sample_cell) (iter_rows ws min_row last_row min_col last_col)"

text \<open>Lines 132 and 133: the range that the source asks for, on the first worksheet.\<close>

definition max_rows :: "worksheet \<Rightarrow> nat" where
  "max_rows first_ws = min 5 (max_row first_ws)"

definition max_cols :: "worksheet \<Rightarrow> nat" where
  "max_cols first_ws = min 5 (max_column first_ws)"

definition sample_data :: "worksheet \<Rightarrow> cell_value list list" where
  "sample_data first_ws = read_rows first_ws 1 (max_rows first_ws) 1 (max_cols first_ws)"

text \<open>
  Lines 148 to 156: the dictionary \<^verbatim>\<open>read_result\<close> as \<^verbatim>\<open>json.dumps\<close> renders it at line
  156, or the \<^verbatim>\<open>TypeError\<close> it raises on a value of the data.
\<close>

definition read_result :: "string \<Rightarrow> worksheet \<Rightarrow> py_exception + json" where
  "read_result file_path first_ws =
     (case json_rows (sample_data first_ws) of
        Inl e \<Rightarrow> Inl e
      | Inr data \<Rightarrow>
          Inr (JObject
            [(''file_path'', JString file_path),
             (''worksheet_name'', JString (title first_ws)),
             (''range'', JString (''A1:'' @ get_column_letter (max_cols first_ws)
                                    @ str_nat (max_rows first_ws))),
             (''data'', data)]))"

section \<open>The whole function (lines 12 to 169)\<close>

record examination =
  ex_sheets :: "(sheet_signal + sheet_report) list"
  ex_total_cells :: nat
  ex_non_empty_cells :: nat
  ex_density_percent :: rat
  ex_metadata :: json
  ex_read_result :: "json option"

text \<open>
  Lines 23 to 156, between the load and the close. Line 28 reads
  \<^verbatim>\<open>workbook.active.title\<close>, an \<^verbatim>\<open>AttributeError\<close> when there is no active sheet;
  line 102 divides; line 156 serializes the range read of the first worksheet, when there
  is one (the guard of line 127).
\<close>

definition examine_loaded :: "string \<Rightarrow> workbook \<Rightarrow> py_exception + examination" where
  "examine_loaded file_path wb =
     (case active wb of
        None \<Rightarrow> Inl AttributeError
      | Some _ \<Rightarrow>
          (case density_percent wb of
             Inl e \<Rightarrow> Inl e
           | Inr p \<Rightarrow>
               (case (case worksheets wb of
                        [] \<Rightarrow> Inr None
                      | first_ws # _ \<Rightarrow>
                          (case read_result file_path first_ws of
                             Inl e \<Rightarrow> Inl e
                           | Inr res \<Rightarrow> Inr (Some res))) of
                  Inl e \<Rightarrow> Inl e
                | Inr shown \<Rightarrow>
                    Inr \<lparr> ex_sheets = map examine_worksheet (worksheets wb),
                          ex_total_cells = total_cells wb,
                          ex_non_empty_cells = non_empty_cells wb,
                          ex_density_percent = p,
                          ex_metadata = metadata file_path wb,
                          ex_read_result = shown \<rparr>)))"

text \<open>
  The archive behind a workbook. \<^verbatim>\<open>openpyxl.load_workbook(filename, read_only=False)\<close>
  raises or returns a workbook. In the default mode it reads the whole workbook into
  memory and closes the archive before it returns; in read-only mode the archive stays
  open. \<^verbatim>\<open>Workbook.close()\<close> closes the archive of a read-only workbook and does nothing
  to a workbook loaded in the default mode. \<open>files\<close> is what the file system holds
  under each path. A load that raises hands no workbook to the caller (\<open>NotOpened\<close>).
\<close>

datatype handle_state = NotOpened | Opened | Closed

definition load_workbook ::
    "(string \<Rightarrow> py_exception + workbook) \<Rightarrow> string \<Rightarrow> bool
       \<Rightarrow> (py_exception + workbook) \<times> handle_state" where
  "load_workbook files filename read_only =
     (case files filename of
        Inl e \<Rightarrow> (Inl e, NotOpened)
      | Inr wb \<Rightarrow> (Inr wb, if read_only then Opened else Closed))"

definition workbook_close :: "bool \<Rightarrow> handle_state \<Rightarrow> handle_state" where
  "workbook_close read_only h = (if read_only then Closed else h)"

record run =
  handle :: handle_state
  raised :: "py_exception option"
  outcome :: "examination option"

text \<open>
  The \<^verbatim>\<open>try\<close> of line 19 with its two handlers, which only print. Line 21 loads with
  \<^verbatim>\<open>read_only\<close> left at its default, \<^verbatim>\<open>False\<close>. \<^verbatim>\<open>workbook.close()\<close> is line 158, the
  last statement of the \<^verbatim>\<open>try\<close> block: an exception of lines 23 to 156 skips it and
  leaves the archive as the load left it.
\<close>

definition examine_excel_file ::
    "string \<Rightarrow> (string \<Rightarrow> py_exception + workbook) \<Rightarrow> run" where
  "examine_excel_file file_path files =
     (case load_workbook files file_path False of
        (Inl e, h) \<Rightarrow> \<lparr> handle = h, raised = Some e, outcome = None \<rparr>
      | (Inr wb, h) \<Rightarrow>
          (case examine_loaded file_path wb of
             Inl e \<Rightarrow> \<lparr> handle = h, raised = Some e, outcome = None \<rparr>
           | Inr ex \<Rightarrow>
               \<lparr> handle = workbook_close False h, raised = None, outcome = Some ex \<rparr>))"

section \<open>Example workbooks\<close>

definition sparse_sheet :: worksheet where
  "sparse_sheet =
     \<lparr> title = ''Sparse'', max_row = 5, max_column = 3,
       cell = (\<lambda>r c. if r = 1 \<and> c = 1 then CStr ''Name'' else CNone) \<rparr>"

definition empty_sheet :: worksheet where
  "empty_sheet =
     \<lparr> title = ''Empty'', max_row = 1, max_column = 1, cell = (\<lambda>r c. CNone) \<rparr>"

definition two_sheets :: workbook where
  "two_sheets = \<lparr> worksheets = [sparse_sheet, empty_sheet], active = Some ''Sparse'' \<rparr>"

text \<open>A workbook whose only sheet is a chartsheet: it has no worksheet.\<close>

definition chart_only :: workbook where
  "chart_only = \<lparr> worksheets = [], active = Some ''Chart1'' \<rparr>"

definition wide_sheet :: worksheet where
  "wide_sheet =
     \<lparr> title = ''Wide'', max_row = 7, max_column = 6,
       cell = (\<lambda>r c. CInt (int (10 * r + c))) \<rparr>"

definition wide_book :: workbook where
  "wide_book = \<lparr> worksheets = [wide_sheet], active = Some ''Wide'' \<rparr>"

text \<open>A file system that holds the given workbook under every path.\<close>

definition holding :: "workbook \<Rightarrow> string \<Rightarrow> py_exception + workbook" where
  "holding wb = (\<lambda>path. Inr wb)"


text \<open>One cell, holding the time of day 09:30:00.\<close>

definition timed_sheet :: worksheet where
  "timed_sheet =
     \<lparr> title = ''Timed'', max_row = 1, max_column = 1,
       cell = (\<lambda>r c. CTime 9 30 0 0) \<rparr>"


text \<open>Two rows and two columns: three cells hold values, cell (2,2) is absent.\<close>

definition quarter_sheet :: worksheet where
  "quarter_sheet =
     \<lparr> title = ''Quarter'', max_row = 2, max_column = 2,
       cell = (\<lambda>r c. if r = 1 \<and> c = 1 then CStr ''Name''
                      else if r = 1 \<and> c = 2 then CStr ''Age''
                      else if r = 2 \<and> c = 1 then CInt 7
                      else CNone) \<rparr>"

definition quarter_book :: workbook where
  "quarter_book = \<lparr> worksheets = [quarter_sheet], active = Some ''Quarter'' \<rparr>"

section \<open>Evaluations used below\<close>

lemma get_column_letter_3: "get_column_letter 3 = ''C''"
  by code_simp

lemma str_nat_5: "str_nat 5 = ''5''"
  by code_simp

section \<open>The used range\<close>

text \<open>
  C1. For a worksheet that is not the empty one (not: bounds 1 by 1 with an absent cell
  (1,1)), the used range shown at line 43 and the \<^verbatim>\<open>used_range\<close> of the metadata entry
  are both \<^verbatim>\<open>A1:\<close> followed by the column letter of \<^verbatim>\<open>max_column\<close> and by
  \<^verbatim>\<open>max_row\<close>: the full nominal bounds. The string does not depend on which cells are
  populated, so it is never a tighter box around them.
\<close>

theorem used_range_full_nominal_bounds:
  assumes "\<not> (max_row ws = 1 \<and> max_column ws = 1 \<and> cell ws 1 1 = CNone)"
  shows "(\<exists>rep. examine_worksheet ws = Inr rep \<and>
            rep_used_range rep
              = ''A1:'' @ get_column_letter (max_column ws) @ str_nat (max_row ws))
       \<and> field ''used_range'' (ws_info ws)
           = Some (JString (''A1:'' @ get_column_letter (max_column ws) @ str_nat (max_row ws)))
       \<and> (\<forall>g. used_range (ws\<lparr>cell := g\<rparr>) = used_range ws)"
  using assms by (simp add: examine_worksheet_def used_range_def ws_info_def field_def)

text \<open>A grid of 5 rows and 3 columns with only cell (1,1) populated reports \<^verbatim>\<open>A1:C5\<close>.\<close>

theorem used_range_full_nominal_bounds_witness:
  "\<not> (max_row sparse_sheet = 1 \<and> max_column sparse_sheet = 1 \<and> cell sparse_sheet 1 1 = CNone)
   \<and> (\<exists>rep. examine_worksheet sparse_sheet = Inr rep \<and> rep_used_range rep = ''A1:C5'')
   \<and> field ''used_range'' (ws_info sparse_sheet) = Some (JString ''A1:C5'')"
proof -
  have h: "\<not> (max_row sparse_sheet = 1 \<and> max_column sparse_sheet = 1
               \<and> cell sparse_sheet 1 1 = CNone)"
    by (simp add: sparse_sheet_def)
  have b: "max_column sparse_sheet = 3" "max_row sparse_sheet = 5"
    by (simp_all add: sparse_sheet_def)
  show ?thesis
    using h used_range_full_nominal_bounds [OF h]
    by (simp add: b get_column_letter_3 str_nat_5)
qed

text \<open>
  C2. The loop of line 32 takes the empty-worksheet exit exactly when the bounds are 1 row
  by 1 column and cell (1,1) is absent. A sheet with any larger bounds is reported in
  full, whatever its cells hold: the used range of the full bounds, \<^verbatim>\<open>max_row\<close> rows of
  \<^verbatim>\<open>max_column\<close> values.
\<close>

theorem empty_worksheet_iff:
  "(examine_worksheet ws = Inl EmptyWorksheet)
     = (max_row ws = 1 \<and> max_column ws = 1 \<and> cell ws 1 1 = CNone)
   \<and> (max_row ws \<noteq> 1 \<or> max_column ws \<noteq> 1 \<longrightarrow>
        (\<exists>rep. examine_worksheet ws = Inr rep
           \<and> rep_used_range rep = used_range ws
           \<and> rep_rows rep = max_row ws \<and> rep_columns rep = max_column ws
           \<and> length (rep_data rep) = max_row ws
           \<and> (\<forall>row \<in> set (rep_data rep). length row = max_column ws)))"
  by (auto simp add: examine_worksheet_def iter_rows_def)

theorem empty_worksheet_iff_witness:
  "examine_worksheet empty_sheet = Inl EmptyWorksheet
   \<and> max_row sparse_sheet \<noteq> 1
   \<and> (\<exists>rep. examine_worksheet sparse_sheet = Inr rep \<and> rep_used_range rep = ''A1:C5''
         \<and> length (rep_data rep) = 5)"
proof -
  have e: "max_row empty_sheet = 1 \<and> max_column empty_sheet = 1 \<and> cell empty_sheet 1 1 = CNone"
    by (simp add: empty_sheet_def)
  have s: "max_row sparse_sheet \<noteq> 1 \<or> max_column sparse_sheet \<noteq> 1"
    by (simp add: sparse_sheet_def)
  have u: "used_range sparse_sheet = ''A1:C5''"
    by (simp add: used_range_def sparse_sheet_def get_column_letter_3 str_nat_5)
  have b: "max_row sparse_sheet = 5"
    by (simp add: sparse_sheet_def)
  show ?thesis
    using e s empty_worksheet_iff [of empty_sheet] empty_worksheet_iff [of sparse_sheet]
    by (auto simp add: u b)
qed

section \<open>The metadata result\<close>

lemma get_column_letter_Suc_0: "get_column_letter (Suc 0) = ''A''"
  by code_simp

lemma str_nat_Suc_0: "str_nat (Suc 0) = ''1''"
  by code_simp

text \<open>
  C5. The \<^verbatim>\<open>worksheets\<close> list of the metadata result has one entry per worksheet, in
  workbook order (entry \<open>i\<close> carries the title of worksheet \<open>i\<close>). The loop of line 114 has
  no empty-worksheet exit: for a worksheet that the display loop calls empty, the entry
  is still there, with \<^verbatim>\<open>used_range\<close> \<^verbatim>\<open>A1:A1\<close>, \<^verbatim>\<open>max_row\<close> 1 and \<^verbatim>\<open>max_column\<close> 1.
\<close>

theorem metadata_lists_every_worksheet:
  "\<exists>entries.
     metadata file_path wb
       = JObject [(''file_path'', JString file_path), (''worksheets'', JArray entries)]
     \<and> length entries = length (worksheets wb)
     \<and> (\<forall>i < length (worksheets wb).
          field ''name'' (entries ! i) = Some (JString (title (worksheets wb ! i)))
          \<and> (examine_worksheet (worksheets wb ! i) = Inl EmptyWorksheet \<longrightarrow>
               entries ! i
                 = JObject [(''name'', JString (title (worksheets wb ! i))),
                            (''used_range'', JString ''A1:A1''),
                            (''max_row'', JInt 1),
                            (''max_column'', JInt 1)]))"
  by (auto simp add: metadata_def ws_info_def field_def examine_worksheet_def used_range_def
        get_column_letter_Suc_0 str_nat_Suc_0 split: if_splits)

text \<open>The two-sheet workbook: a 5 by 3 sheet, then an empty one.\<close>

theorem metadata_lists_every_worksheet_witness:
  "metadata ''test.xlsx'' two_sheets
     = JObject [(''file_path'', JString ''test.xlsx''),
         (''worksheets'', JArray
            [JObject [(''name'', JString ''Sparse''), (''used_range'', JString ''A1:C5''),
                      (''max_row'', JInt 5), (''max_column'', JInt 3)],
             JObject [(''name'', JString ''Empty''), (''used_range'', JString ''A1:A1''),
                      (''max_row'', JInt 1), (''max_column'', JInt 1)]])]"
proof -
  have e: "examine_worksheet (worksheets two_sheets ! 1) = Inl EmptyWorksheet"
    by (simp add: two_sheets_def empty_sheet_def examine_worksheet_def)
  have s: "ws_info (worksheets two_sheets ! 0)
             = JObject [(''name'', JString ''Sparse''), (''used_range'', JString ''A1:C5''),
                        (''max_row'', JInt 5), (''max_column'', JInt 3)]"
    by (simp add: two_sheets_def sparse_sheet_def ws_info_def used_range_def
          get_column_letter_3 str_nat_5)
  have n: "length (worksheets two_sheets) = 2"
    by (simp add: two_sheets_def)
  obtain entries where m: "metadata ''test.xlsx'' two_sheets
       = JObject [(''file_path'', JString ''test.xlsx''), (''worksheets'', JArray entries)]"
    and l: "length entries = length (worksheets two_sheets)"
    and a: "\<forall>i < length (worksheets two_sheets).
          field ''name'' (entries ! i) = Some (JString (title (worksheets two_sheets ! i)))
          \<and> (examine_worksheet (worksheets two_sheets ! i) = Inl EmptyWorksheet \<longrightarrow>
               entries ! i
                 = JObject [(''name'', JString (title (worksheets two_sheets ! i))),
                            (''used_range'', JString ''A1:A1''),
                            (''max_row'', JInt 1),
                            (''max_column'', JInt 1)])"
    using metadata_lists_every_worksheet [of "''test.xlsx''" two_sheets] by blast
  from a e n have e1: "entries ! 1
      = JObject [(''name'', JString (title (worksheets two_sheets ! 1))),
                 (''used_range'', JString ''A1:A1''),
                 (''max_row'', JInt 1),
                 (''max_column'', JInt 1)]"
    by simp
  from m have "entries = map ws_info (worksheets two_sheets)"
    by (simp add: metadata_def)
  then have e0: "entries ! 0 = ws_info (worksheets two_sheets ! 0)"
    using n by simp
  from l n have "entries = [entries ! 0, entries ! 1]"
    by (cases entries; cases "tl entries"; simp)
  with e0 e1 s m show ?thesis
    by (simp add: two_sheets_def empty_sheet_def)
qed

section \<open>A workbook without worksheets\<close>

text \<open>
  C4. On a workbook with no worksheet the total of line 91 is 0 and the division of line
  102 raises \<^verbatim>\<open>ZeroDivisionError\<close>: no density is reported, neither 0 nor any other.
\<close>

theorem density_zero_total_raises:
  "total_cells chart_only = 0
   \<and> density chart_only = Inl ZeroDivisionError
   \<and> density_percent chart_only = Inl ZeroDivisionError"
  by (simp add: chart_only_def total_cells_def non_empty_cells_def density_def
        density_percent_def true_div_def)

section \<open>The archive on every exit\<close>

lemma examine_loaded_chart_only:
  "examine_loaded ''charts.xlsx'' chart_only = Inl ZeroDivisionError"
  by (simp add: examine_loaded_def chart_only_def total_cells_def non_empty_cells_def
        density_def density_percent_def true_div_def)

lemma examine_loaded_quarter_book:
  "(case examine_loaded ''test.xlsx'' quarter_book of Inl e \<Rightarrow> Some e | Inr ex \<Rightarrow> None) = None"
  by code_simp

text \<open>
  C7. Line 21 loads the workbook in the default mode, so the archive is closed when the
  load returns, and \<^verbatim>\<open>workbook.close()\<close> at line 158 changes nothing. Whenever the load
  succeeds the function therefore returns with the archive closed, on the path that
  reaches line 158 and on every path that an exception of lines 23 to 156 cuts short.
  When the load fails the source holds no workbook to close.
\<close>

theorem archive_closed_on_every_exit:
  "(files file_path = Inr wb \<longrightarrow>
      handle (examine_excel_file file_path files) = Closed
      \<and> raised (examine_excel_file file_path files)
          = (case examine_loaded file_path wb of Inl e \<Rightarrow> Some e | Inr ex \<Rightarrow> None))
   \<and> (files file_path = Inl e \<longrightarrow>
        handle (examine_excel_file file_path files) = NotOpened
        \<and> raised (examine_excel_file file_path files) = Some e)"
  by (simp add: examine_excel_file_def load_workbook_def workbook_close_def
        split: sum.splits)

text \<open>An error path (the division by zero), the path without error, and a missing file.\<close>

theorem archive_closed_on_every_exit_witness:
  "handle (examine_excel_file ''charts.xlsx'' (holding chart_only)) = Closed
   \<and> raised (examine_excel_file ''charts.xlsx'' (holding chart_only)) = Some ZeroDivisionError
   \<and> handle (examine_excel_file ''test.xlsx'' (holding quarter_book)) = Closed
   \<and> raised (examine_excel_file ''test.xlsx'' (holding quarter_book)) = None
   \<and> handle (examine_excel_file ''none.xlsx'' (\<lambda>path. Inl FileNotFoundError)) = NotOpened"
proof -
  have a: "holding chart_only ''charts.xlsx'' = Inr chart_only"
    and b: "holding quarter_book ''test.xlsx'' = Inr quarter_book"
    by (simp_all add: holding_def)
  have c: "(\<lambda>path. Inl FileNotFoundError :: py_exception + workbook) ''none.xlsx''
             = Inl FileNotFoundError"
    by simp
  show ?thesis
    using a b c
      archive_closed_on_every_exit [of "holding chart_only" "''charts.xlsx''" chart_only]
      archive_closed_on_every_exit [of "holding quarter_book" "''test.xlsx''" quarter_book]
      archive_closed_on_every_exit
        [of "\<lambda>path. Inl FileNotFoundError" "''none.xlsx''" _ FileNotFoundError]
    by (simp add: examine_loaded_chart_only examine_loaded_quarter_book)
qed

section \<open>The range read\<close>

lemma iter_rows_length: "length (iter_rows ws r1 r2 c1 c2) = Suc r2 - r1"
  by (simp add: iter_rows_def del: upt_Suc)

lemma iter_rows_nth:
  "i < Suc r2 - r1 \<Longrightarrow> iter_rows ws r1 r2 c1 c2 ! i = map (\<lambda>c. cell ws (r1 + i) c) [c1 ..< Suc c2]"
  by (simp add: iter_rows_def del: upt_Suc)

lemma read_rows_length: "length (read_rows ws r1 r2 c1 c2) = Suc r2 - r1"
  by (simp add: read_rows_def iter_rows_length)

lemma read_rows_nth_length:
  "i < Suc r2 - r1 \<Longrightarrow> length (read_rows ws r1 r2 c1 c2 ! i) = Suc c2 - c1"
  by (simp add: read_rows_def iter_rows_length iter_rows_nth del: upt_Suc)

lemma read_rows_nth_nth:
  "i < Suc r2 - r1 \<Longrightarrow> j < Suc c2 - c1 \<Longrightarrow>
     read_rows ws r1 r2 c1 c2 ! i ! j = format_sample_cell (cell ws (r1 + i) (c1 + j))"
  by (simp add: read_rows_def iter_rows_length iter_rows_nth del: upt_Suc)

lemma dumps_all_Inr:
  "dumps_all xs = Inr vs \<Longrightarrow> length vs = length xs \<and> (\<forall>i < length xs. xs ! i = Inr (vs ! i))"
proof (induction xs arbitrary: vs)
  case Nil
  then show ?case by simp
next
  case (Cons x xs)
  from Cons.prems obtain v ws where x: "x = Inr v" and r: "dumps_all xs = Inr ws"
    and vs: "vs = v # ws"
    by (auto split: sum.splits)
  from Cons.IH [OF r] x vs show ?case
    by (auto simp add: nth_Cons split: nat.splits)
qed

lemma json_row_Inr:
  "json_row row = Inr r \<Longrightarrow>
     \<exists>vs. r = JArray vs \<and> length vs = length row
          \<and> (\<forall>j < length row. json_value (row ! j) = Inr (vs ! j))"
  unfolding json_row_def using dumps_all_Inr [of "map json_value row"]
  by (auto split: sum.splits)

lemma json_rows_Inr:
  "json_rows rows = Inr data \<Longrightarrow>
     \<exists>rs. data = JArray rs \<and> length rs = length rows
          \<and> (\<forall>i < length rows. json_row (rows ! i) = Inr (rs ! i))"
  unfolding json_rows_def using dumps_all_Inr [of "map json_row rows"]
  by (auto split: sum.splits)

lemma read_result_fields:
  assumes "read_result file_path ws = Inr res"
  shows "field ''range'' res
           = Some (JString (''A1:'' @ get_column_letter (max_cols ws) @ str_nat (max_rows ws)))"
    and "\<exists>data. json_rows (sample_data ws) = Inr data \<and> field ''data'' res = Some data"
  using assms by (auto simp add: read_result_def field_def split: sum.splits)

lemma sample_data_length: "length (sample_data ws) = max_rows ws"
  by (simp add: sample_data_def read_rows_length)

lemma sample_data_nth_length: "i < max_rows ws \<Longrightarrow> length (sample_data ws ! i) = max_cols ws"
  by (simp add: sample_data_def read_rows_nth_length)

lemma sample_data_nth_nth:
  "i < max_rows ws \<Longrightarrow> j < max_cols ws \<Longrightarrow>
     sample_data ws ! i ! j = format_sample_cell (cell ws (i + 1) (j + 1))"
  by (simp add: sample_data_def read_rows_nth_nth)

lemma read_result_data_inside:
  assumes "read_result file_path ws = Inr res" and "i < max_rows ws" and "j < max_cols ws"
  shows "\<exists>v. data_at res i j = Some v
           \<and> json_value (format_sample_cell (cell ws (i + 1) (j + 1))) = Inr v"
proof -
  from read_result_fields(2) [OF assms(1)] obtain data
    where d: "json_rows (sample_data ws) = Inr data" "field ''data'' res = Some data"
    by blast
  from json_rows_Inr [OF d(1)] obtain rs
    where rs: "data = JArray rs" "length rs = max_rows ws"
      "\<forall>i < max_rows ws. json_row (sample_data ws ! i) = Inr (rs ! i)"
    by (auto simp add: sample_data_length)
  from rs(3) assms(2) have "json_row (sample_data ws ! i) = Inr (rs ! i)"
    by simp
  from json_row_Inr [OF this] obtain vs
    where vs: "rs ! i = JArray vs" "length vs = max_cols ws"
      "\<forall>j < max_cols ws. json_value (sample_data ws ! i ! j) = Inr (vs ! j)"
    using assms(2) by (auto simp add: sample_data_nth_length)
  from vs(3) assms(2,3) have "json_value (format_sample_cell (cell ws (i + 1) (j + 1))) = Inr (vs ! j)"
    by (simp add: sample_data_nth_nth)
  moreover have "data_at res i j = Some (vs ! j)"
    using d(2) rs(1,2) vs(1,2) assms(2,3) by (simp add: data_at_def)
  ultimately show ?thesis by blast
qed

lemma read_result_data_outside:
  assumes "read_result file_path ws = Inr res" and "\<not> (i < max_rows ws \<and> j < max_cols ws)"
  shows "data_at res i j = None"
proof -
  from read_result_fields(2) [OF assms(1)] obtain data
    where d: "json_rows (sample_data ws) = Inr data" "field ''data'' res = Some data"
    by blast
  from json_rows_Inr [OF d(1)] obtain rs
    where rs: "data = JArray rs" "length rs = max_rows ws"
      "\<forall>i < max_rows ws. json_row (sample_data ws ! i) = Inr (rs ! i)"
    by (auto simp add: sample_data_length)
  show ?thesis
  proof (cases "i < max_rows ws")
    case False
    with d(2) rs(1,2) show ?thesis by (simp add: data_at_def)
  next
    case True
    with rs(3) have "json_row (sample_data ws ! i) = Inr (rs ! i)"
      by simp
    from json_row_Inr [OF this] obtain vs
      where vs: "rs ! i = JArray vs" "length vs = max_cols ws"
      using True by (auto simp add: sample_data_nth_length)
    from True assms(2) have "\<not> j < max_cols ws" by simp
    with d(2) rs(1,2) vs True show ?thesis by (simp add: data_at_def)
  qed
qed

lemma examine_loaded_read_result:
  assumes "examine_loaded file_path wb = Inr ex" and "worksheets wb = ws # rest"
  shows "\<exists>res. ex_read_result ex = Some res \<and> read_result file_path ws = Inr res"
  using assms by (auto simp add: examine_loaded_def split: option.splits sum.splits)

text \<open>
  C8. The loop that fills the data (lines 135 to 146) has no bound of its own: for any
  range with \<open>min_row \<le> last_row\<close> and \<open>min_col \<le> last_col\<close> it returns one row per row
  of the range and one value per column, the value at \<open>(i, j)\<close> being the one of cell
  \<open>(min_row + i, min_col + j)\<close>. The source asks for the range from \<^verbatim>\<open>A1\<close> to row
  \<open>min 5 max_row\<close> and column \<open>min 5 max_column\<close> of the first worksheet and names that
  range in the result; the \<^verbatim>\<open>data\<close> of the result holds a value at exactly the
  positions of that range, the serialized value of the cell there. The result of a run is
  that result for the first worksheet.
\<close>

theorem range_read_covers_request:
  "(min_row \<le> last_row \<and> min_col \<le> last_col \<longrightarrow>
      length (read_rows ws min_row last_row min_col last_col) = last_row - min_row + 1
      \<and> (\<forall>i \<le> last_row - min_row.
           length (read_rows ws min_row last_row min_col last_col ! i) = last_col - min_col + 1
           \<and> (\<forall>j \<le> last_col - min_col.
                read_rows ws min_row last_row min_col last_col ! i ! j
                  = format_sample_cell (cell ws (min_row + i) (min_col + j)))))
   \<and> sample_data ws = read_rows ws 1 (min 5 (max_row ws)) 1 (min 5 (max_column ws))
   \<and> (read_result file_path ws = Inr res \<longrightarrow>
        field ''range'' res
          = Some (JString (''A1:'' @ get_column_letter (min 5 (max_column ws))
                           @ str_nat (min 5 (max_row ws))))
        \<and> (\<forall>i j. if i < min 5 (max_row ws) \<and> j < min 5 (max_column ws)
                  then \<exists>v. data_at res i j = Some v
                         \<and> json_value (format_sample_cell (cell ws (i + 1) (j + 1))) = Inr v
                  else data_at res i j = None))
   \<and> (examine_loaded file_path wb = Inr ex \<and> worksheets wb = ws # rest \<longrightarrow>
        (\<exists>shown. ex_read_result ex = Some shown \<and> read_result file_path ws = Inr shown))"
proof (intro conjI impI)
  assume b: "min_row \<le> last_row \<and> min_col \<le> last_col"
  then show "length (read_rows ws min_row last_row min_col last_col) = last_row - min_row + 1"
    by (simp add: read_rows_length Suc_diff_le)
  from b show "\<forall>i \<le> last_row - min_row.
      length (read_rows ws min_row last_row min_col last_col ! i) = last_col - min_col + 1
      \<and> (\<forall>j \<le> last_col - min_col.
           read_rows ws min_row last_row min_col last_col ! i ! j
             = format_sample_cell (cell ws (min_row + i) (min_col + j)))"
    by (simp add: read_rows_nth_length read_rows_nth_nth Suc_diff_le)
next
  show "sample_data ws = read_rows ws 1 (min 5 (max_row ws)) 1 (min 5 (max_column ws))"
    by (simp add: sample_data_def max_rows_def max_cols_def)
next
  assume r: "read_result file_path ws = Inr res"
  from read_result_fields(1) [OF r]
  show "field ''range'' res
          = Some (JString (''A1:'' @ get_column_letter (min 5 (max_column ws))
                           @ str_nat (min 5 (max_row ws))))"
    by (simp add: max_rows_def max_cols_def)
  show "\<forall>i j. if i < min 5 (max_row ws) \<and> j < min 5 (max_column ws)
               then \<exists>v. data_at res i j = Some v
                      \<and> json_value (format_sample_cell (cell ws (i + 1) (j + 1))) = Inr v
               else data_at res i j = None"
    using read_result_data_inside [OF r] read_result_data_outside [OF r]
    unfolding max_rows_def max_cols_def by presburger
next
  assume "examine_loaded file_path wb = Inr ex \<and> worksheets wb = ws # rest"
  then show "\<exists>shown. ex_read_result ex = Some shown \<and> read_result file_path ws = Inr shown"
    using examine_loaded_read_result by blast
qed

lemma read_result_wide_sheet:
  "read_result ''test.xlsx'' wide_sheet
     = Inr (JObject
         [(''file_path'', JString ''test.xlsx''),
          (''worksheet_name'', JString ''Wide''),
          (''range'', JString ''A1:E5''),
          (''data'', JArray
             [JArray [JInt 11, JInt 12, JInt 13, JInt 14, JInt 15],
              JArray [JInt 21, JInt 22, JInt 23, JInt 24, JInt 25],
              JArray [JInt 31, JInt 32, JInt 33, JInt 34, JInt 35],
              JArray [JInt 41, JInt 42, JInt 43, JInt 44, JInt 45],
              JArray [JInt 51, JInt 52, JInt 53, JInt 54, JInt 55]])])"
  by code_simp

text \<open>
  On the sheet of 7 rows and 6 columns: the loop over the range from (2,3) to (7,6) gives
  6 rows of 4 values; the source's own request is \<^verbatim>\<open>A1:E5\<close> and its data ends at
  \<open>(4, 4)\<close>, the value of cell (5,5).
\<close>

theorem range_read_covers_request_witness:
  "length (read_rows wide_sheet 2 7 3 6) = 6
   \<and> length (read_rows wide_sheet 2 7 3 6 ! 5) = 4
   \<and> read_rows wide_sheet 2 7 3 6 ! 5 ! 3 = CInt 76
   \<and> data_at (JObject
         [(''file_path'', JString ''test.xlsx''),
          (''worksheet_name'', JString ''Wide''),
          (''range'', JString ''A1:E5''),
          (''data'', JArray
             [JArray [JInt 11, JInt 12, JInt 13, JInt 14, JInt 15],
              JArray [JInt 21, JInt 22, JInt 23, JInt 24, JInt 25],
              JArray [JInt 31, JInt 32, JInt 33, JInt 34, JInt 35],
              JArray [JInt 41, JInt 42, JInt 43, JInt 44, JInt 45],
              JArray [JInt 51, JInt 52, JInt 53, JInt 54, JInt 55]])]) 5 0 = None"
proof -
  let ?res = "JObject
         [(''file_path'', JString ''test.xlsx''),
          (''worksheet_name'', JString ''Wide''),
          (''range'', JString ''A1:E5''),
          (''data'', JArray
             [JArray [JInt 11, JInt 12, JInt 13, JInt 14, JInt 15],
              JArray [JInt 21, JInt 22, JInt 23, JInt 24, JInt 25],
              JArray [JInt 31, JInt 32, JInt 33, JInt 34, JInt 35],
              JArray [JInt 41, JInt 42, JInt 43, JInt 44, JInt 45],
              JArray [JInt 51, JInt 52, JInt 53, JInt 54, JInt 55]])]"
  have b: "(2::nat) \<le> 7 \<and> (3::nat) \<le> 6"
    by simp
  have m: "max_row wide_sheet = 7" "max_column wide_sheet = 6"
    by (simp_all add: wide_sheet_def)
  have c: "format_sample_cell (cell wide_sheet (2 + 5) (3 + 3)) = CInt 76"
    by (simp add: wide_sheet_def format_sample_cell_def)
  note t = range_read_covers_request
    [of 2 7 3 6 wide_sheet "''test.xlsx''" ?res wide_book _ "[]"]
  from t b have "length (read_rows wide_sheet 2 7 3 6) = 6"
    by simp
  moreover from t b have "length (read_rows wide_sheet 2 7 3 6 ! 5) = 4
      \<and> read_rows wide_sheet 2 7 3 6 ! 5 ! 3
          = format_sample_cell (cell wide_sheet (2 + 5) (3 + 3))"
    by simp
  moreover from t read_result_wide_sheet
  have "if (5::nat) < min 5 (max_row wide_sheet) \<and> (0::nat) < min 5 (max_column wide_sheet)
        then \<exists>v. data_at ?res 5 0 = Some v
               \<and> json_value (format_sample_cell (cell wide_sheet (5 + 1) (0 + 1))) = Inr v
        else data_at ?res 5 0 = None"
    by blast
  then have "data_at ?res 5 0 = None"
    by (simp add: m)
  ultimately show ?thesis
    using c by simp
qed

section \<open>Dates in the two renderings\<close>









text \<open>
  A cell that holds only a time of day is no \<^verbatim>\<open>datetime\<close>: the range read passes the
  \<^verbatim>\<open>time\<close> object on and line 156 raises \<^verbatim>\<open>TypeError\<close>.
\<close>

lemma read_result_timed_sheet:
  "read_result ''test.xlsx'' timed_sheet = Inl TypeError"
  "examine_loaded ''test.xlsx'' \<lparr> worksheets = [timed_sheet], active = Some ''Timed'' \<rparr>
     = Inl TypeError"
  by code_simp+





section \<open>Cell counts and density\<close>

text \<open>The counter of lines 92 to 98 is the number of cells of the walked rows that pass the test.\<close>

lemma count_row:
  "foldl (\<lambda>n c. if P c then n + 1 else n) (n::nat) row = n + length (filter P row)"
  by (induction row arbitrary: n) simp_all

lemma count_rows:
  "foldl (\<lambda>n row. foldl (\<lambda>n c. if P c then n + 1 else n) n row) (n::nat) rows
     = n + length (filter P (concat rows))"
  by (induction rows arbitrary: n) (simp_all add: count_row)

lemma count_sheets:
  "foldl (\<lambda>n ws. foldl (\<lambda>n row. foldl (\<lambda>n c. if P c then n + 1 else n) n row) n (g ws))
      (n::nat) wss
     = n + sum_list (map (\<lambda>ws. length (filter P (concat (g ws)))) wss)"
  by (induction wss arbitrary: n) (simp_all add: count_rows)

lemma non_empty_cells_sum:
  "non_empty_cells wb
     = (\<Sum>ws\<leftarrow>worksheets wb.
          length (filter (\<lambda>c. c \<noteq> CNone \<and> strip (str c) \<noteq> []) (concat (iter_rows_all ws))))"
  unfolding non_empty_cells_def by (simp add: count_sheets)

lemma concat_iter_rows:
  "concat (iter_rows ws r1 r2 c1 c2)
     = map (\<lambda>(r, c). cell ws r c) (List.product [r1 ..< Suc r2] [c1 ..< Suc c2])"
  unfolding iter_rows_def product_concat_map
  by (simp add: map_concat comp_def del: upt_Suc)

lemma length_concat_iter_rows_all:
  "length (concat (iter_rows_all ws)) = max_row ws * max_column ws"
  by (simp add: iter_rows_all_def concat_iter_rows del: upt_Suc)

lemma count_grid_card:
  "length (filter P (concat (iter_rows_all ws)))
     = card {(r, c). 1 \<le> r \<and> r \<le> max_row ws \<and> 1 \<le> c \<and> c \<le> max_column ws
                     \<and> P (cell ws r c)}"
proof -
  let ?grid = "List.product [1 ..< Suc (max_row ws)] [1 ..< Suc (max_column ws)]"
  let ?Q = "\<lambda>(r, c). P (cell ws r c)"
  have "length (filter P (concat (iter_rows_all ws))) = length (filter ?Q ?grid)"
    by (simp add: iter_rows_all_def concat_iter_rows filter_map comp_def case_prod_unfold
          del: upt_Suc)
  also have "\<dots> = card (set (filter ?Q ?grid))"
    by (rule distinct_card [symmetric]) (simp add: distinct_product del: upt_Suc)
  also have "set (filter ?Q ?grid)
      = {(r, c). 1 \<le> r \<and> r \<le> max_row ws \<and> 1 \<le> c \<and> c \<le> max_column ws \<and> P (cell ws r c)}"
    by (auto simp del: upt_Suc)
  finally show ?thesis .
qed

lemma strip_blank: "(\<forall>ch \<in> set s. isspace ch) \<Longrightarrow> strip s = []"
proof -
  assume "\<forall>ch \<in> set s. isspace ch"
  then have d: "dropWhile isspace s = []"
    by (induction s) simp_all
  show ?thesis
    unfolding strip_def d by simp
qed

text \<open>
  C3. \<^verbatim>\<open>total_cells\<close> is the sum over the worksheets of \<^verbatim>\<open>max_row * max_column\<close>.
  \<^verbatim>\<open>non_empty_cells\<close> is the sum over the worksheets of the number of positions
  \<open>(r, c)\<close> of the nominal grid whose cell is not \<^verbatim>\<open>None\<close> and whose \<^verbatim>\<open>str\<close>, stripped
  of whitespace, is not empty. A cell holding an empty or all-whitespace string has an
  empty stripped text and is not counted.
\<close>

theorem cell_counts:
  "total_cells wb = (\<Sum>ws\<leftarrow>worksheets wb. max_row ws * max_column ws)
   \<and> non_empty_cells wb
       = (\<Sum>ws\<leftarrow>worksheets wb.
            card {(r, c). 1 \<le> r \<and> r \<le> max_row ws \<and> 1 \<le> c \<and> c \<le> max_column ws
                          \<and> cell ws r c \<noteq> CNone \<and> strip (str (cell ws r c)) \<noteq> []})
   \<and> ((\<forall>ch \<in> set s. isspace ch) \<longrightarrow> strip (str (CStr s)) = [])"
  by (simp add: total_cells_def non_empty_cells_sum count_grid_card strip_blank)

lemma non_empty_cells_quarter: "non_empty_cells quarter_book = 3"
  by code_simp

lemma total_cells_quarter: "total_cells quarter_book = 4"
  by code_simp

lemma isspace_blank: "\<forall>ch \<in> set ''  ''. isspace ch"
  by code_simp

theorem cell_counts_witness:
  "(\<Sum>ws\<leftarrow>worksheets quarter_book.
      card {(r, c). 1 \<le> r \<and> r \<le> max_row ws \<and> 1 \<le> c \<and> c \<le> max_column ws
                    \<and> cell ws r c \<noteq> CNone \<and> strip (str (cell ws r c)) \<noteq> []}) = 3
   \<and> (\<Sum>ws\<leftarrow>worksheets quarter_book. max_row ws * max_column ws) = 4
   \<and> isspace CHR '' '' \<and> strip (str (CStr ''  '')) = []"
  using cell_counts [of quarter_book "''  ''"] non_empty_cells_quarter total_cells_quarter
    isspace_blank
  by simp

text \<open>
  C10. The count of non-empty cells is at most the total; when the total is positive the
  quotient of line 102 is defined, equals count over total, and lies between 0 and 1.
  (The quotient is exact here; Python rounds it to a double, and rounding keeps it between
  the doubles 0 and 1.)
\<close>

theorem non_empty_le_total:
  "non_empty_cells wb \<le> total_cells wb
   \<and> (0 < total_cells wb \<longrightarrow>
        (\<exists>q. density wb = Inr q
           \<and> q = of_nat (non_empty_cells wb) / of_nat (total_cells wb)
           \<and> 0 \<le> q \<and> q \<le> 1))"
proof -
  have le: "non_empty_cells wb \<le> total_cells wb"
    unfolding non_empty_cells_sum total_cells_def
  proof (rule sum_list_mono)
    fix ws
    have "length (filter (\<lambda>c. c \<noteq> CNone \<and> strip (str c) \<noteq> []) (concat (iter_rows_all ws)))
            \<le> length (concat (iter_rows_all ws))"
      by (rule length_filter_le)
    then show "length (filter (\<lambda>c. c \<noteq> CNone \<and> strip (str c) \<noteq> []) (concat (iter_rows_all ws)))
            \<le> max_row ws * max_column ws"
      by (simp only: length_concat_iter_rows_all)
  qed
  then have "0 < total_cells wb \<Longrightarrow>
      (of_nat (non_empty_cells wb) :: rat) / of_nat (total_cells wb) \<le> 1"
    by simp
  with le show ?thesis
    by (simp add: density_def true_div_def)
qed

theorem non_empty_le_total_witness:
  "0 < total_cells quarter_book \<and> density quarter_book = Inr (3 / 4)
   \<and> non_empty_cells quarter_book \<le> total_cells quarter_book"
  using non_empty_le_total [of quarter_book] non_empty_cells_quarter total_cells_quarter
  by auto

section \<open>The column-letter round trip\<close>

lemma parse_letters_append:
  "parse_letters acc (s @ [c])
     = (case parse_letters acc s of
          Inl e \<Rightarrow> Inl e
        | Inr v \<Rightarrow> if is_column_letter c then Inr (v * 26 + (of_char c - 64))
                   else Inl InvalidAddress)"
  by (induction s arbitrary: acc) simp_all

lemma letter_is_column_letter: "k < 26 \<Longrightarrow> is_column_letter (char_of (65 + (k::nat)))"
  by (simp add: is_column_letter_def)

lemma letter_value: "k < 26 \<Longrightarrow> (of_char (char_of (65 + (k::nat))) :: nat) - 64 = k + 1"
  by simp

lemma letter_of_value: "is_column_letter c \<Longrightarrow> char_of (65 + ((of_char c :: nat) - 65)) = c"
  by (simp add: is_column_letter_def)

lemma parse_letters_get_column_letter: "parse_letters 0 (get_column_letter n) = Inr n"
proof (induction n rule: get_column_letter.induct)
  case (1 n)
  show ?case
  proof (cases "n = 0")
    case True
    then show ?thesis by (subst get_column_letter.simps) simp
  next
    case False
    let ?k = "(n - 1) mod 26"
    have k: "?k < 26" by simp
    have n: "(n - 1) div 26 * 26 + (?k + 1) = n"
      using False by simp
    show ?thesis
      using False "1.IH" [OF False] letter_is_column_letter [OF k] letter_value [OF k] n
      by (subst get_column_letter.simps) (simp add: parse_letters_append del: of_char_of)
  qed
qed

lemma get_column_letter_nonempty: "0 < n \<Longrightarrow> get_column_letter n \<noteq> []"
  by (subst get_column_letter.simps) simp

lemma get_column_letter_parse_letters:
  "\<forall>c \<in> set s. is_column_letter c \<Longrightarrow>
     \<exists>n. parse_letters 0 s = Inr n \<and> get_column_letter n = s \<and> (s \<noteq> [] \<longrightarrow> 0 < n)"
proof (induction s rule: rev_induct)
  case Nil
  show ?case by (subst get_column_letter.simps) simp
next
  case (snoc c s)
  then obtain v where v: "parse_letters 0 s = Inr v" "get_column_letter v = s"
    by auto
  from snoc.prems have c: "is_column_letter c" by simp
  let ?k = "(of_char c :: nat) - 65"
  let ?n = "v * 26 + (of_char c - 64)"
  from c have k: "?k < 26" "(of_char c :: nat) - 64 = ?k + 1"
    unfolding is_column_letter_def by arith+
  then have p: "?n - 1 = v * 26 + ?k" "?n \<noteq> 0"
    by simp_all
  from k(1) have d: "(?n - 1) div 26 = v" "(?n - 1) mod 26 = ?k"
    unfolding p(1) by simp_all
  have "get_column_letter ?n = get_column_letter v @ [char_of (65 + ?k)]"
    by (subst get_column_letter.simps) (simp only: d p(2) if_False)
  with v c letter_of_value [OF c] show ?case
    by (simp add: parse_letters_append k)
qed

lemma parse_letters_rejects:
  "\<exists>c \<in> set s. \<not> is_column_letter c \<Longrightarrow> parse_letters acc s = Inl InvalidAddress"
  by (induction s arbitrary: acc) auto

lemma not_alpha_not_column_letter: "\<not> isalpha c \<Longrightarrow> \<not> is_column_letter c"
  by (simp add: isalpha_def is_column_letter_def Let_def)

text \<open>
  C9. Against the column-letter encoding of the spec: parsing the letters of a positive
  index gives the index back; formatting the index of a non-empty string of letters
  \<^verbatim>\<open>A\<close> to \<^verbatim>\<open>Z\<close> gives the string back; and \<^verbatim>\<open>parseColumn\<close> fails with
  \<^verbatim>\<open>InvalidAddress\<close> on the empty string and on a string with a non-alphabetic
  character.
\<close>

theorem column_letter_round_trip:
  "(0 < n \<longrightarrow> parseColumn (get_column_letter n) = Inr n)
   \<and> (s \<noteq> [] \<and> (\<forall>c \<in> set s. is_column_letter c) \<longrightarrow>
        (\<exists>m. 0 < m \<and> parseColumn s = Inr m \<and> get_column_letter m = s))
   \<and> (s = [] \<or> (\<exists>c \<in> set s. \<not> isalpha c) \<longrightarrow> parseColumn s = Inl InvalidAddress)"
proof (intro conjI impI)
  assume "0 < n"
  then show "parseColumn (get_column_letter n) = Inr n"
    by (simp add: parseColumn_def get_column_letter_nonempty parse_letters_get_column_letter)
next
  assume "s \<noteq> [] \<and> (\<forall>c \<in> set s. is_column_letter c)"
  then show "\<exists>m. 0 < m \<and> parseColumn s = Inr m \<and> get_column_letter m = s"
    using get_column_letter_parse_letters [of s] by (auto simp add: parseColumn_def)
next
  assume "s = [] \<or> (\<exists>c \<in> set s. \<not> isalpha c)"
  then show "parseColumn s = Inl InvalidAddress"
    using parse_letters_rejects [of s 0] not_alpha_not_column_letter
    by (auto simp add: parseColumn_def)
qed

lemma get_column_letter_28: "get_column_letter 28 = ''AB''"
  by code_simp

lemma parseColumn_XFD: "parseColumn ''XFD'' = Inr 16384"
  by code_simp

lemma column_letters_XFD: "\<forall>c \<in> set ''XFD''. is_column_letter c"
  by code_simp

lemma not_alpha_digit: "\<not> isalpha CHR ''1''"
  by code_simp

theorem column_letter_round_trip_witness:
  "parseColumn ''AB'' = Inr 28
   \<and> get_column_letter 16384 = ''XFD''
   \<and> parseColumn ''A1'' = Inl InvalidAddress
   \<and> parseColumn [] = Inl InvalidAddress"
proof -
  have a: "parseColumn ''AB'' = Inr 28"
    using column_letter_round_trip [of 28 "[]"] get_column_letter_28 by simp
  have b: "get_column_letter 16384 = ''XFD''"
    using column_letter_round_trip [of 0 "''XFD''"] column_letters_XFD parseColumn_XFD
    by auto
  have c: "parseColumn ''A1'' = Inl InvalidAddress"
    using column_letter_round_trip [of 0 "''A1''"] not_alpha_digit by simp
  have d: "parseColumn [] = Inl InvalidAddress"
    using column_letter_round_trip [of 0 "[]"] by simp
  from a b c d show ?thesis by simp
qed

end
